theory Spec2Isabelle
  imports Main
begin

section \<open>Values of the Python program\<close>

text \<open>
  The server of \<^verbatim>\<open>echoserver.py\<close> reads one JSON document per line, decodes it
  with \<^verbatim>\<open>json.loads\<close>, dispatches it in \<^verbatim>\<open>EchoserverMCP.handle_jsonrpc\<close> and prints
  the encoded answer. The values that flow through the program are exactly the values
  \<^verbatim>\<open>json.loads\<close> can build: \<^verbatim>\<open>None\<close>, \<^verbatim>\<open>bool\<close>, \<^verbatim>\<open>int\<close> (unbounded),
  \<^verbatim>\<open>float\<close>, \<^verbatim>\<open>str\<close>, \<^verbatim>\<open>list\<close> and \<^verbatim>\<open>dict\<close> with string keys.

  A \<^verbatim>\<open>dict\<close> is an association list in insertion order; a key is looked up with
  \<open>map_of\<close>. A \<^verbatim>\<open>float\<close> is kept as sign, mantissa and binary exponent (or an
  infinity, or not-a-number): the program only ever tests a float for truth and
  converts it to text.
\<close>

datatype pyfloat = Finite bool nat int | Infinity bool | NaN

datatype json =
    JNull
  | JBool bool
  | JInt int
  | JFloat pyfloat
  | JStr string
  | JArr "json list"
  | JObj "(string \<times> json) list"

text \<open>
  The exceptions the dispatcher can raise on these values: a method call on a value
  that has no such method (\<^verbatim>\<open>AttributeError\<close>: the value and the attribute), a
  missing dictionary key (\<^verbatim>\<open>KeyError\<close>: the key) and a subscript on a value that
  does not take a string subscript (\<^verbatim>\<open>TypeError\<close>: the value).
\<close>

datatype py_exc =
    AttributeError json string
  | KeyError string
  | TypeError json

text \<open>
  What the external HTTP request of \<^verbatim>\<open>make_chess_request\<close> can come back with: the
  request itself fails (no connection, or the 30 second timeout expires), or a
  response arrives with a status code and a body.
\<close>

datatype transport_failure = NetworkFailure | Timeout

datatype http_outcome =
    Failed transport_failure
  | Responded nat string

type_synonym headers = "(string \<times> string) list"

type_synonym http_client = "string \<Rightarrow> headers \<Rightarrow> http_outcome"

text \<open>
  The functions of the Python runtime that the program calls and that are not part
  of it are parameters of the model: the JSON decoder (\<open>None\<close> when it raises), the
  JSON encoder, the text of an exception (\<^verbatim>\<open>str(e)\<close>), \<^verbatim>\<open>repr\<close> of a
  float and of a string, and \<^verbatim>\<open>str.strip\<close>.
\<close>

record runtime =
  json_loads :: "string \<Rightarrow> json option"
  json_dumps :: "json \<Rightarrow> string"
  exc_str :: "py_exc \<Rightarrow> string"
  float_repr :: "pyfloat \<Rightarrow> string"
  str_repr :: "string \<Rightarrow> string"
  str_strip :: "string \<Rightarrow> string"

section \<open>Python built-ins used by the program\<close>

text \<open>\<^verbatim>\<open>d.get(key, default)\<close>: only a \<^verbatim>\<open>dict\<close> has the method.\<close>

fun dict_get :: "json \<Rightarrow> string \<Rightarrow> json \<Rightarrow> py_exc + json" where
  "dict_get (JObj kvs) k d = Inr (case map_of kvs k of None \<Rightarrow> d | Some v \<Rightarrow> v)"
| "dict_get v k d = Inl (AttributeError v ''get'')"

text \<open>\<^verbatim>\<open>data["followers"]\<close>: a subscript with a string key.\<close>

fun subscript :: "json \<Rightarrow> string \<Rightarrow> py_exc + json" where
  "subscript (JObj kvs) k = (case map_of kvs k of None \<Rightarrow> Inl (KeyError k) | Some v \<Rightarrow> Inr v)"
| "subscript v k = Inl (TypeError v)"

text \<open>Truth value of an object, as \<^verbatim>\<open>not data\<close> tests it.\<close>

fun truthy :: "json \<Rightarrow> bool" where
  "truthy JNull = False"
| "truthy (JBool b) = b"
| "truthy (JInt i) = (i \<noteq> 0)"
| "truthy (JFloat (Finite s m e)) = (m \<noteq> 0)"
| "truthy (JFloat (Infinity s)) = True"
| "truthy (JFloat NaN) = True"
| "truthy (JStr s) = (s \<noteq> [])"
| "truthy (JArr xs) = (xs \<noteq> [])"
| "truthy (JObj kvs) = (kvs \<noteq> [])"

text \<open>\<^verbatim>\<open>str\<close> of an integer: decimal digits, with a minus sign when negative.\<close>

definition digit_char :: "nat \<Rightarrow> char" where
  "digit_char d = ''0123456789'' ! d"

fun str_nat :: "nat \<Rightarrow> string" where
  "str_nat n = (if n < 10 then [digit_char n] else str_nat (n div 10) @ [digit_char (n mod 10)])"

declare str_nat.simps [simp del]

definition str_int :: "int \<Rightarrow> string" where
  "str_int i = (if i < 0 then CHR ''-'' # str_nat (nat (- i)) else str_nat (nat i))"

text \<open>\<^verbatim>\<open>sep.join(xs)\<close>.\<close>

fun join :: "string \<Rightarrow> string list \<Rightarrow> string" where
  "join sep [] = []"
| "join sep [x] = x"
| "join sep (x # y # ys) = x @ sep @ join sep (y # ys)"

text \<open>
  \<^verbatim>\<open>repr\<close> of a value, and \<^verbatim>\<open>str\<close>, which differs from it on strings only.
  An f-string field \<^verbatim>\<open>{player}\<close> formats its value with \<^verbatim>\<open>str\<close>.
\<close>

fun py_repr :: "runtime \<Rightarrow> json \<Rightarrow> string" where
  "py_repr rt JNull = ''None''"
| "py_repr rt (JBool b) = (if b then ''True'' else ''False'')"
| "py_repr rt (JInt i) = str_int i"
| "py_repr rt (JFloat f) = float_repr rt f"
| "py_repr rt (JStr s) = str_repr rt s"
| "py_repr rt (JArr xs) = ''['' @ join '', '' (map (py_repr rt) xs) @ '']''"
| "py_repr rt (JObj kvs) =
     ''{'' @ join '', '' (map (\<lambda>kv. str_repr rt (fst kv) @ '': '' @ py_repr rt (snd kv)) kvs) @ ''}''"

fun py_str :: "runtime \<Rightarrow> json \<Rightarrow> string" where
  "py_str rt (JStr s) = s"
| "py_str rt v = py_repr rt v"

section \<open>The server\<close>

subsection \<open>Constants and the tool registry\<close>

definition CHESSCOM_API_BASE :: string where
  "CHESSCOM_API_BASE = ''https://api.chess.com''"

definition USER_AGENT :: string where
  "USER_AGENT = ''chesscom-app/1.0''"

definition echoserver_tool :: json where
  "echoserver_tool = JObj [
     (''name'', JStr ''echoserver''),
     (''description'', JStr ''Reply to a message with its echo (the message itself)''),
     (''inputSchema'', JObj [
        (''type'', JStr ''object''),
        (''properties'', JObj [
           (''msg'', JObj [
              (''type'', JStr ''string''),
              (''description'', JStr ''Message to reply'')])]),
        (''required'', JArr [JStr ''msg''])])]"

definition chesscom_tool :: json where
  "chesscom_tool = JObj [
     (''name'', JStr ''chesscomProfileFollowers''),
     (''description'', JStr ''Get a chess.com player followers''),
     (''inputSchema'', JObj [
        (''type'', JStr ''object''),
        (''properties'', JObj [
           (''username'', JObj [
              (''type'', JStr ''string''),
              (''description'', JStr ''Chess.com username'')])]),
        (''required'', JArr [JStr ''username''])])]"

text \<open>\<^verbatim>\<open>self.tools\<close>, in the order the dictionary literal inserts its keys.\<close>

definition tools :: "(string \<times> json) list" where
  "tools = [(''echoserver'', echoserver_tool), (''chesscomProfileFollowers'', chesscom_tool)]"

subsection \<open>Envelopes\<close>

definition create_response :: "json \<Rightarrow> json \<Rightarrow> json" where
  "create_response request_id result =
     JObj [(''jsonrpc'', JStr ''2.0''), (''id'', request_id), (''result'', result)]"

definition create_error_response :: "json \<Rightarrow> int \<Rightarrow> string \<Rightarrow> json" where
  "create_error_response request_id code message =
     JObj [(''jsonrpc'', JStr ''2.0''), (''id'', request_id),
           (''error'', JObj [(''code'', JInt code), (''message'', JStr message)])]"

text \<open>The content payload both tools build: one text item.\<close>

definition text_content :: "json \<Rightarrow> json" where
  "text_content t = JObj [(''content'', JArr [JObj [(''type'', JStr ''text''), (''text'', t)]])]"

subsection \<open>The outbound request\<close>

text \<open>
  \<^verbatim>\<open>response.raise_for_status()\<close> raises unless the status is a success status
  (200 to 299).
\<close>

definition is_success :: "nat \<Rightarrow> bool" where
  "is_success status = (200 \<le> status \<and> status \<le> 299)"

definition request_headers :: headers where
  "request_headers = [(''User-Agent'', USER_AGENT), (''Accept'', ''application/json'')]"

text \<open>
  \<^verbatim>\<open>make_chess_request\<close>: every exception of the request, of the status check and of
  the decoding of the body is caught and turned into \<^verbatim>\<open>None\<close>.
\<close>

definition make_chess_request :: "runtime \<Rightarrow> http_client \<Rightarrow> string \<Rightarrow> json" where
  "make_chess_request rt http url =
     (case http url request_headers of
        Failed f \<Rightarrow> JNull
      | Responded status body \<Rightarrow>
          if \<not> is_success status then JNull
          else (case json_loads rt body of None \<Rightarrow> JNull | Some v \<Rightarrow> v))"

subsection \<open>The dispatcher\<close>

definition initialize_result :: json where
  "initialize_result = JObj [
     (''protocolVersion'', JStr ''2024-11-05''),
     (''capabilities'', JObj [(''tools'', JObj [])]),
     (''serverInfo'', JObj [(''name'', JStr ''echoserver''), (''version'', JStr ''1.0.0'')])]"

text \<open>The two tool branches of \<^verbatim>\<open>tools/call\<close>.\<close>

definition call_echoserver :: "json \<Rightarrow> json \<Rightarrow> py_exc + json" where
  "call_echoserver request_id params =
     (case dict_get params ''arguments'' JNull of
        Inl e \<Rightarrow> Inl e
      | Inr arguments \<Rightarrow>
          (case dict_get arguments ''msg'' JNull of
             Inl e \<Rightarrow> Inl e
           | Inr client_msg \<Rightarrow> Inr (create_response request_id (text_content client_msg))))"

definition call_chesscom :: "runtime \<Rightarrow> http_client \<Rightarrow> json \<Rightarrow> json \<Rightarrow> py_exc + json" where
  "call_chesscom rt http request_id params =
     (case dict_get params ''arguments'' JNull of
        Inl e \<Rightarrow> Inl e
      | Inr arguments \<Rightarrow>
          (case dict_get arguments ''username'' JNull of
             Inl e \<Rightarrow> Inl e
           | Inr player \<Rightarrow>
               (let url = CHESSCOM_API_BASE @ ''/pub/player/'' @ py_str rt player;
                    data = make_chess_request rt http url
                in if \<not> truthy data
                   then Inr (create_error_response request_id (- 1)
                               ''Chess.com user profile not found'')
                   else (case subscript data ''followers'' of
                           Inl e \<Rightarrow> Inl e
                         | Inr followers \<Rightarrow>
                             Inr (create_response request_id
                                    (text_content (JStr (py_str rt followers))))))))"

text \<open>The body of the \<^verbatim>\<open>try\<close> block of \<^verbatim>\<open>handle_jsonrpc\<close>; \<open>Inl\<close> is a raised exception.\<close>

definition try_block :: "runtime \<Rightarrow> http_client \<Rightarrow> json \<Rightarrow> py_exc + json" where
  "try_block rt http request =
     (case dict_get request ''method'' JNull of
        Inl e \<Rightarrow> Inl e
      | Inr method \<Rightarrow>
     (case dict_get request ''params'' (JObj []) of
        Inl e \<Rightarrow> Inl e
      | Inr params \<Rightarrow>
     (case dict_get request ''id'' JNull of
        Inl e \<Rightarrow> Inl e
      | Inr request_id \<Rightarrow>
          if method = JStr ''initialize'' then
            Inr (create_response request_id initialize_result)
          else if method = JStr ''tools/list'' then
            Inr (create_response request_id (JObj [(''tools'', JArr (map snd tools))]))
          else if method = JStr ''tools/call'' then
            (case dict_get params ''name'' JNull of
               Inl e \<Rightarrow> Inl e
             | Inr tool_name \<Rightarrow>
                 if tool_name = JStr ''echoserver'' then
                   call_echoserver request_id params
                 else if tool_name = JStr ''chesscomProfileFollowers'' then
                   call_chesscom rt http request_id params
                 else
                   Inr (create_error_response request_id (- 32601) ''tool not found''))
          else
            Inr (create_error_response request_id (- 32601) ''method not found''))))"

text \<open>
  \<^verbatim>\<open>handle_jsonrpc\<close>: the \<^verbatim>\<open>except\<close> clause reads the id from the request again,
  outside any handler, so an exception of that read leaves the function.
\<close>

definition handle_jsonrpc :: "runtime \<Rightarrow> http_client \<Rightarrow> json \<Rightarrow> py_exc + json" where
  "handle_jsonrpc rt http request =
     (case try_block rt http request of
        Inr response \<Rightarrow> Inr response
      | Inl e \<Rightarrow>
          (case dict_get request ''id'' JNull of
             Inl e' \<Rightarrow> Inl e'
           | Inr request_id \<Rightarrow>
               Inr (create_error_response request_id (- 32603) (exc_str rt e))))"

subsection \<open>The session loop\<close>

definition parse_error_response :: json where
  "parse_error_response =
     JObj [(''jsonrpc'', JStr ''2.0''), (''id'', JNull),
           (''error'', JObj [(''code'', JInt (- 32700)), (''message'', JStr ''Parse error'')])]"

text \<open>
  \<^verbatim>\<open>main\<close>. Standard input is the list of strings that successive \<^verbatim>\<open>readline\<close>
  calls return (a line with its terminator; the empty string is end of input, as is
  the end of the list). The result is the list of strings printed, in order. The
  network may answer differently at every request, so the HTTP client is indexed by
  the number of lines handled so far. Every exception of the decoding and of
  \<^verbatim>\<open>handle_jsonrpc\<close> is caught and answered with the parse error envelope; the
  encoder and \<^verbatim>\<open>print\<close> are taken to succeed.
\<close>

fun main_loop :: "runtime \<Rightarrow> (nat \<Rightarrow> http_client) \<Rightarrow> nat \<Rightarrow> string list \<Rightarrow> string list" where
  "main_loop rt net n [] = []"
| "main_loop rt net n (line # rest) =
     (if line = [] then []
      else (case json_loads rt (str_strip rt line) of
              None \<Rightarrow> json_dumps rt parse_error_response # main_loop rt net (Suc n) rest
            | Some request \<Rightarrow>
                (case handle_jsonrpc rt (net n) request of
                   Inl e \<Rightarrow> json_dumps rt parse_error_response # main_loop rt net (Suc n) rest
                 | Inr response \<Rightarrow> json_dumps rt response # main_loop rt net (Suc n) rest)))"

definition main :: "runtime \<Rightarrow> (nat \<Rightarrow> http_client) \<Rightarrow> string list \<Rightarrow> string list" where
  "main rt net stdin = main_loop rt net 0 stdin"

section \<open>Envelopes as the protocol describes them\<close>

text \<open>
  A well-formed envelope has the members \<^verbatim>\<open>jsonrpc\<close> (the string 2.0), \<^verbatim>\<open>id\<close>,
  and exactly one of \<^verbatim>\<open>result\<close> and \<^verbatim>\<open>error\<close>, an error being an object with an
  integer \<^verbatim>\<open>code\<close> and a string \<^verbatim>\<open>message\<close>.
\<close>

fun is_error_object :: "json \<Rightarrow> bool" where
  "is_error_object (JObj [(c, JInt code), (m, JStr message)]) = (c = ''code'' \<and> m = ''message'')"
| "is_error_object v = False"

fun well_formed_envelope :: "json \<Rightarrow> bool" where
  "well_formed_envelope (JObj [(j, JStr v), (i, request_id), (k, body)]) =
     (j = ''jsonrpc'' \<and> v = ''2.0'' \<and> i = ''id'' \<and>
      (k = ''result'' \<or> (k = ''error'' \<and> is_error_object body)))"
| "well_formed_envelope v = False"

fun envelope_id :: "json \<Rightarrow> json option" where
  "envelope_id (JObj kvs) = map_of kvs ''id''"
| "envelope_id v = None"

fun envelope_result :: "json \<Rightarrow> json option" where
  "envelope_result (JObj kvs) = map_of kvs ''result''"
| "envelope_result v = None"

text \<open>The id a request object carries: \<^verbatim>\<open>request.get("id")\<close>, \<^verbatim>\<open>None\<close> without the key.\<close>

definition id_of :: "(string \<times> json) list \<Rightarrow> json" where
  "id_of req = (case map_of req ''id'' of None \<Rightarrow> JNull | Some i \<Rightarrow> i)"

section \<open>A runtime for concrete runs\<close>

text \<open>
  To run the model on concrete requests the runtime parameters need values. The
  decoder below knows the documents used in the examples and rejects every other
  text; the encoder and the text functions are simple stand-ins. The theorems hold
  for every runtime; this one only instantiates them.
\<close>

definition sample_loads :: "string \<Rightarrow> json option" where
  \<open>sample_loads s =
     (if s = ''{"jsonrpc": "2.0", "id": 2, "method": "tools/list"}'' then
        Some (JObj [(''jsonrpc'', JStr ''2.0''), (''id'', JInt 2), (''method'', JStr ''tools/list'')])
      else if s = ''{}'' then Some (JObj [])
      else if s = ''{"followers": 42, "name": "Alice"}'' then
        Some (JObj [(''followers'', JInt 42), (''name'', JStr ''Alice'')])
      else if s = ''{"name": "Alice"}'' then
        Some (JObj [(''name'', JStr ''Alice'')])
      else None)\<close>

definition sample_strip :: "string \<Rightarrow> string" where
  "sample_strip s =
     rev (dropWhile (\<lambda>c. c \<in> set [CHR '' '', CHR 0x09, CHR 0x0A, CHR 0x0D])
       (rev (dropWhile (\<lambda>c. c \<in> set [CHR '' '', CHR 0x09, CHR 0x0A, CHR 0x0D]) s)))"

fun sample_dumps :: "json \<Rightarrow> string" where
  "sample_dumps JNull = ''null''"
| "sample_dumps (JBool b) = (if b then ''true'' else ''false'')"
| "sample_dumps (JInt i) = str_int i"
| "sample_dumps (JFloat f) = ''NaN''"
| "sample_dumps (JStr s) = [CHR 0x22] @ s @ [CHR 0x22]"
| "sample_dumps (JArr xs) = ''['' @ join '', '' (map sample_dumps xs) @ '']''"
| "sample_dumps (JObj kvs) =
     ''{'' @ join '', '' (map (\<lambda>kv. [CHR 0x22] @ fst kv @ [CHR 0x22] @ '': '' @ sample_dumps (snd kv)) kvs) @ ''}''"

definition sample_runtime :: runtime where
  "sample_runtime = \<lparr>
     json_loads = sample_loads,
     json_dumps = sample_dumps,
     exc_str = (\<lambda>e. case e of
        AttributeError v a \<Rightarrow> ''object has no attribute '' @ a
      | KeyError k \<Rightarrow> [CHR 0x27] @ k @ [CHR 0x27]
      | TypeError v \<Rightarrow> ''object is not subscriptable''),
     float_repr = (\<lambda>f. ''nan''),
     str_repr = (\<lambda>s. [CHR 0x27] @ s @ [CHR 0x27]),
     str_strip = sample_strip
   \<rparr>"

text \<open>Two input lines: one that is not JSON, and a \<^verbatim>\<open>tools/list\<close> request.\<close>

definition garbage_line :: string where
  "garbage_line = ''this is not json'' @ [CHR 0x0A]"

definition tools_list_line :: string where
  \<open>tools_list_line = ''{"jsonrpc": "2.0", "id": 2, "method": "tools/list"}'' @ [CHR 0x0A]\<close>

text \<open>Requests for the two tools, and HTTP clients that answer in a fixed way.\<close>

definition echo_request :: "json \<Rightarrow> json" where
  "echo_request arguments = JObj [
     (''method'', JStr ''tools/call''),
     (''params'', JObj [(''name'', JStr ''echoserver''), (''arguments'', arguments)]),
     (''jsonrpc'', JStr ''2.0''), (''id'', JInt 23)]"

definition alice_request :: json where
  "alice_request = JObj [
     (''method'', JStr ''tools/call''),
     (''params'', JObj [(''name'', JStr ''chesscomProfileFollowers''),
                        (''arguments'', JObj [(''username'', JStr ''alice'')])]),
     (''jsonrpc'', JStr ''2.0''), (''id'', JInt 23)]"

definition answering :: "http_outcome \<Rightarrow> http_client" where
  "answering outcome = (\<lambda>url hs.
     if url = ''https://api.chess.com/pub/player/alice'' \<and> hs = request_headers
     then outcome else Failed NetworkFailure)"

section \<open>Facts about the dispatcher\<close>

lemma handle_jsonrpc_Inr:
  "try_block rt http request = Inr r \<Longrightarrow> handle_jsonrpc rt http request = Inr r"
  by (simp add: handle_jsonrpc_def)

lemma handle_jsonrpc_Inl:
  "try_block rt http (JObj req) = Inl e \<Longrightarrow>
   handle_jsonrpc rt http (JObj req) =
     Inr (create_error_response (id_of req) (- 32603) (exc_str rt e))"
  by (simp add: handle_jsonrpc_def id_of_def)

lemma try_block_initialize:
  assumes "map_of req ''method'' = Some (JStr ''initialize'')"
  shows "try_block rt http (JObj req) = Inr (create_response (id_of req) initialize_result)"
  using assms by (simp add: try_block_def id_of_def)

lemma try_block_tools_list:
  assumes "map_of req ''method'' = Some (JStr ''tools/list'')"
  shows "try_block rt http (JObj req) =
    Inr (create_response (id_of req) (JObj [(''tools'', JArr (map snd tools))]))"
  using assms by (simp add: try_block_def id_of_def)

text \<open>A \<^verbatim>\<open>tools/call\<close> request whose \<^verbatim>\<open>params\<close> is an object goes to the tool named.\<close>

lemma try_block_tools_call:
  assumes "map_of req ''method'' = Some (JStr ''tools/call'')"
    and "map_of req ''params'' = Some (JObj ps)"
  shows "try_block rt http (JObj req) =
    (if map_of ps ''name'' = Some (JStr ''echoserver'') then
       call_echoserver (id_of req) (JObj ps)
     else if map_of ps ''name'' = Some (JStr ''chesscomProfileFollowers'') then
       call_chesscom rt http (id_of req) (JObj ps)
     else Inr (create_error_response (id_of req) (- 32601) ''tool not found''))"
  using assms by (simp add: try_block_def id_of_def split: option.splits)

lemma try_block_no_params:
  assumes "map_of req ''method'' = Some (JStr ''tools/call'')"
    and "map_of req ''params'' = None"
  shows "try_block rt http (JObj req) =
    Inr (create_error_response (id_of req) (- 32601) ''tool not found'')"
  using assms by (simp add: try_block_def id_of_def)

lemma call_echoserver_obj:
  assumes "map_of ps ''arguments'' = Some (JObj args)"
  shows "call_echoserver i (JObj ps) =
    Inr (create_response i
          (text_content (case map_of args ''msg'' of None \<Rightarrow> JNull | Some m \<Rightarrow> m)))"
  using assms by (simp add: call_echoserver_def)

lemma call_echoserver_not_obj:
  assumes "\<forall>args. map_of ps ''arguments'' \<noteq> Some (JObj args)"
  shows "call_echoserver i (JObj ps) =
    Inl (AttributeError (case map_of ps ''arguments'' of None \<Rightarrow> JNull | Some a \<Rightarrow> a) ''get'')"
proof (cases "map_of ps ''arguments''")
  case None
  then show ?thesis by (simp add: call_echoserver_def)
next
  case (Some a)
  with assms have "\<forall>args. a \<noteq> JObj args" by simp
  then have "dict_get a ''msg'' JNull = Inl (AttributeError a ''get'')"
    by (cases a) simp_all
  with Some show ?thesis by (simp add: call_echoserver_def)
qed

text \<open>The lookup tool, once its arguments are an object: the three ways it ends.\<close>

lemma call_chesscom_obj:
  assumes "map_of ps ''arguments'' = Some (JObj args)"
  shows "call_chesscom rt http i (JObj ps) =
    (let data = make_chess_request rt http
                  (''https://api.chess.com/pub/player/'' @
                   py_str rt (case map_of args ''username'' of None \<Rightarrow> JNull | Some u \<Rightarrow> u))
     in if \<not> truthy data
        then Inr (create_error_response i (- 1) ''Chess.com user profile not found'')
        else (case subscript data ''followers'' of
                Inl e \<Rightarrow> Inl e
              | Inr followers \<Rightarrow>
                  Inr (create_response i (text_content (JStr (py_str rt followers))))))"
  using assms by (simp add: call_chesscom_def CHESSCOM_API_BASE_def Let_def)

lemma make_chess_request_decoded:
  assumes "http url request_headers = Responded st body" "is_success st"
    "json_loads rt body = Some v"
  shows "make_chess_request rt http url = v"
  using assms by (simp add: make_chess_request_def)

lemma str_int_42: "str_int 42 = ''42''"
  by (simp add: str_int_def str_nat.simps digit_char_def)

text \<open>Every answer of the \<^verbatim>\<open>try\<close> block is an envelope for the request's id.\<close>

lemma well_formed_create_response:
  "well_formed_envelope (create_response i r) \<and> envelope_id (create_response i r) = Some i"
  by (simp add: create_response_def)

lemma well_formed_create_error_response:
  "well_formed_envelope (create_error_response i c m) \<and>
   envelope_id (create_error_response i c m) = Some i"
  by (simp add: create_error_response_def)

lemma call_echoserver_envelope:
  "call_echoserver i params = Inr r \<Longrightarrow> well_formed_envelope r \<and> envelope_id r = Some i"
  by (auto simp: call_echoserver_def well_formed_create_response split: sum.splits)

lemma call_chesscom_envelope:
  "call_chesscom rt http i params = Inr r \<Longrightarrow> well_formed_envelope r \<and> envelope_id r = Some i"
  by (auto simp: call_chesscom_def Let_def well_formed_create_response
        well_formed_create_error_response split: sum.splits if_splits)

lemma try_block_envelope:
  assumes "try_block rt http (JObj req) = Inr r"
  shows "well_formed_envelope r \<and> envelope_id r = Some (id_of req)"
proof -
  let ?i = "id_of req"
  from assms have
    "r = create_response ?i initialize_result \<or>
     r = create_response ?i (JObj [(''tools'', JArr (map snd tools))]) \<or>
     (\<exists>p. call_echoserver ?i p = Inr r) \<or>
     (\<exists>p. call_chesscom rt http ?i p = Inr r) \<or>
     r = create_error_response ?i (- 32601) ''tool not found'' \<or>
     r = create_error_response ?i (- 32601) ''method not found''"
    by (auto simp: try_block_def id_of_def split: sum.splits if_splits)
  then show ?thesis
    using call_echoserver_envelope call_chesscom_envelope
      well_formed_create_response well_formed_create_error_response
    by metis
qed

section \<open>The claims\<close>

text \<open>
  C7. Every \<^verbatim>\<open>initialize\<close> request, whatever its id, is answered with a success
  envelope that carries the id of the request and the fixed result: protocol version
  2024-11-05, capabilities with an empty \<^verbatim>\<open>tools\<close> object, and the server info
  echoserver 1.0.0. The answer depends on neither the runtime nor the network: no tool
  runs and no request is sent.
\<close>

theorem initialize_response:
  assumes "map_of req ''method'' = Some (JStr ''initialize'')"
  shows "handle_jsonrpc rt http (JObj req) =
    Inr (JObj [(''jsonrpc'', JStr ''2.0''), (''id'', id_of req),
          (''result'', JObj [
             (''protocolVersion'', JStr ''2024-11-05''),
             (''capabilities'', JObj [(''tools'', JObj [])]),
             (''serverInfo'',
                JObj [(''name'', JStr ''echoserver''), (''version'', JStr ''1.0.0'')])])])"
proof -
  have "handle_jsonrpc rt http (JObj req) = Inr (create_response (id_of req) initialize_result)"
    using assms by (rule handle_jsonrpc_Inr [OF try_block_initialize])
  then show ?thesis
    by (simp add: create_response_def initialize_result_def)
qed

theorem initialize_response_witness:
  "handle_jsonrpc sample_runtime (answering (Failed Timeout))
     (JObj [(''jsonrpc'', JStr ''2.0''), (''id'', JInt 1), (''method'', JStr ''initialize''),
            (''params'', JObj [])]) =
    Inr (JObj [(''jsonrpc'', JStr ''2.0''), (''id'', JInt 1),
          (''result'', JObj [
             (''protocolVersion'', JStr ''2024-11-05''),
             (''capabilities'', JObj [(''tools'', JObj [])]),
             (''serverInfo'',
                JObj [(''name'', JStr ''echoserver''), (''version'', JStr ''1.0.0'')])])])"
  using initialize_response [of "[(''jsonrpc'', JStr ''2.0''), (''id'', JInt 1),
      (''method'', JStr ''initialize''), (''params'', JObj [])]"
      sample_runtime "answering (Failed Timeout)"]
  by (simp add: id_of_def)

text \<open>
  C8. Every \<^verbatim>\<open>tools/list\<close> request is answered with a success envelope whose result
  holds exactly the two tools of the registry, in registry order: first
  \<^verbatim>\<open>echoserver\<close>, whose schema requires \<^verbatim>\<open>msg\<close>, then
  \<^verbatim>\<open>chesscomProfileFollowers\<close>, whose schema requires \<^verbatim>\<open>username\<close>. The catalog is
  written out in full; it does not depend on the request, the runtime or the network,
  so any two calls return the same one.
\<close>

theorem tools_list_catalog:
  assumes "map_of req ''method'' = Some (JStr ''tools/list'')"
    and "map_of req' ''method'' = Some (JStr ''tools/list'')"
  shows "handle_jsonrpc rt http (JObj req) =
    Inr (JObj [(''jsonrpc'', JStr ''2.0''), (''id'', id_of req),
      (''result'', JObj [(''tools'', JArr [
         JObj [
           (''name'', JStr ''echoserver''),
           (''description'', JStr ''Reply to a message with its echo (the message itself)''),
           (''inputSchema'', JObj [
              (''type'', JStr ''object''),
              (''properties'', JObj [
                 (''msg'', JObj [
                    (''type'', JStr ''string''),
                    (''description'', JStr ''Message to reply'')])]),
              (''required'', JArr [JStr ''msg''])])],
         JObj [
           (''name'', JStr ''chesscomProfileFollowers''),
           (''description'', JStr ''Get a chess.com player followers''),
           (''inputSchema'', JObj [
              (''type'', JStr ''object''),
              (''properties'', JObj [
                 (''username'', JObj [
                    (''type'', JStr ''string''),
                    (''description'', JStr ''Chess.com username'')])]),
              (''required'', JArr [JStr ''username''])])]])])])
    \<and> (case handle_jsonrpc rt' http' (JObj req') of
         Inl e \<Rightarrow> None | Inr env \<Rightarrow> envelope_result env) =
      (case handle_jsonrpc rt http (JObj req) of
         Inl e \<Rightarrow> None | Inr env \<Rightarrow> envelope_result env)"
proof -
  have a: "handle_jsonrpc rt http (JObj req) =
      Inr (create_response (id_of req) (JObj [(''tools'', JArr (map snd tools))]))"
    using assms(1) by (rule handle_jsonrpc_Inr [OF try_block_tools_list])
  have b: "handle_jsonrpc rt' http' (JObj req') =
      Inr (create_response (id_of req') (JObj [(''tools'', JArr (map snd tools))]))"
    using assms(2) by (rule handle_jsonrpc_Inr [OF try_block_tools_list])
  have c: "map snd tools = [echoserver_tool, chesscom_tool]"
    by (simp add: tools_def)
  show ?thesis
    unfolding a b c
    by (simp add: create_response_def echoserver_tool_def chesscom_tool_def)
qed

theorem tools_list_catalog_witness:
  "handle_jsonrpc sample_runtime (answering (Failed Timeout))
     (JObj [(''jsonrpc'', JStr ''2.0''), (''id'', JInt 2), (''method'', JStr ''tools/list'')]) =
   Inr (create_response (JInt 2) (JObj [(''tools'', JArr [echoserver_tool, chesscom_tool])]))
   \<and> (case handle_jsonrpc sample_runtime (answering (Responded 200 ''{}''))
              (JObj [(''method'', JStr ''tools/list''), (''id'', JStr ''again'')]) of
         Inl e \<Rightarrow> None | Inr env \<Rightarrow> envelope_result env) =
      (case handle_jsonrpc sample_runtime (answering (Failed Timeout))
              (JObj [(''jsonrpc'', JStr ''2.0''), (''id'', JInt 2),
                     (''method'', JStr ''tools/list'')]) of
         Inl e \<Rightarrow> None | Inr env \<Rightarrow> envelope_result env)"
  using tools_list_catalog [where
      req = "[(''jsonrpc'', JStr ''2.0''), (''id'', JInt 2), (''method'', JStr ''tools/list'')]"
      and req' = "[(''method'', JStr ''tools/list''), (''id'', JStr ''again'')]"
      and rt = sample_runtime and http = "answering (Failed Timeout)"
      and rt' = sample_runtime and http' = "answering (Responded 200 ''{}'')"]
  by (simp add: id_of_def create_response_def echoserver_tool_def chesscom_tool_def)

text \<open>
  C9. A \<^verbatim>\<open>tools/call\<close> request whose \<^verbatim>\<open>params\<close> (an object, or left out) names no
  tool of the catalog is answered with the error envelope of code -32601, whatever
  \<^verbatim>\<open>arguments\<close> holds: nothing is assumed about it.
\<close>

theorem unknown_tool_not_found:
  assumes "map_of req ''method'' = Some (JStr ''tools/call'')"
    and "map_of req ''params'' = Some (JObj ps) \<or> (map_of req ''params'' = None \<and> ps = [])"
    and "(case map_of ps ''name'' of None \<Rightarrow> JNull | Some v \<Rightarrow> v) \<notin> JStr ` fst ` set tools"
  shows "handle_jsonrpc rt http (JObj req) =
    Inr (JObj [(''jsonrpc'', JStr ''2.0''), (''id'', id_of req),
               (''error'', JObj [(''code'', JInt (- 32601)),
                                 (''message'', JStr ''tool not found'')])])"
proof -
  from assms(3) have n:
    "map_of ps ''name'' \<noteq> Some (JStr ''echoserver'')"
    "map_of ps ''name'' \<noteq> Some (JStr ''chesscomProfileFollowers'')"
    by (auto simp: tools_def)
  from assms(2) have "try_block rt http (JObj req) =
      Inr (create_error_response (id_of req) (- 32601) ''tool not found'')"
  proof
    assume "map_of req ''params'' = Some (JObj ps)"
    from try_block_tools_call [OF assms(1) this] n show ?thesis by simp
  next
    assume "map_of req ''params'' = None \<and> ps = []"
    then show ?thesis using try_block_no_params [OF assms(1)] by simp
  qed
  then have "handle_jsonrpc rt http (JObj req) =
      Inr (create_error_response (id_of req) (- 32601) ''tool not found'')"
    by (rule handle_jsonrpc_Inr)
  then show ?thesis by (simp add: create_error_response_def)
qed

theorem unknown_tool_not_found_witness:
  "handle_jsonrpc sample_runtime (answering (Failed Timeout))
     (JObj [(''method'', JStr ''tools/call''),
            (''params'', JObj [(''name'', JStr ''reverse''), (''arguments'', JInt 7)]),
            (''id'', JInt 5)]) =
    Inr (JObj [(''jsonrpc'', JStr ''2.0''), (''id'', JInt 5),
               (''error'', JObj [(''code'', JInt (- 32601)),
                                 (''message'', JStr ''tool not found'')])])"
  using unknown_tool_not_found [where
      req = "[(''method'', JStr ''tools/call''),
        (''params'', JObj [(''name'', JStr ''reverse''), (''arguments'', JInt 7)]),
        (''id'', JInt 5)]"
      and ps = "[(''name'', JStr ''reverse''), (''arguments'', JInt 7)]"
      and rt = sample_runtime and http = "answering (Failed Timeout)"]
  by (simp add: id_of_def tools_def)

text \<open>
  C2. For every string \<open>s\<close>, a \<^verbatim>\<open>tools/call\<close> request that names \<^verbatim>\<open>echoserver\<close>
  and whose arguments hold \<^verbatim>\<open>msg\<close> = \<open>s\<close> is answered with a success envelope whose
  content is one text item with exactly \<open>s\<close> as its text. Nothing is assumed about
  \<open>s\<close>: it may be empty and may hold newlines and quotes.
\<close>

theorem echo_verbatim:
  assumes "map_of req ''method'' = Some (JStr ''tools/call'')"
    and "map_of req ''params'' = Some (JObj ps)"
    and "map_of ps ''name'' = Some (JStr ''echoserver'')"
    and "map_of ps ''arguments'' = Some (JObj args)"
    and "map_of args ''msg'' = Some (JStr s)"
  shows "handle_jsonrpc rt http (JObj req) =
    Inr (JObj [(''jsonrpc'', JStr ''2.0''), (''id'', id_of req),
               (''result'', JObj [(''content'',
                   JArr [JObj [(''type'', JStr ''text''), (''text'', JStr s)]])])])"
proof -
  have "try_block rt http (JObj req) = call_echoserver (id_of req) (JObj ps)"
    using try_block_tools_call [OF assms(1,2)] assms(3) by simp
  also have "\<dots> = Inr (create_response (id_of req) (text_content (JStr s)))"
    using call_echoserver_obj [OF assms(4)] assms(5) by simp
  finally have "handle_jsonrpc rt http (JObj req) =
      Inr (create_response (id_of req) (text_content (JStr s)))"
    by (rule handle_jsonrpc_Inr)
  then show ?thesis by (simp add: create_response_def text_content_def)
qed

theorem echo_verbatim_witness:
  "handle_jsonrpc sample_runtime (answering (Failed Timeout))
     (echo_request (JObj [(''msg'', JStr [CHR ''H'', CHR ''i'', CHR 0x0A, CHR 0x22, CHR 0x27])])) =
    Inr (JObj [(''jsonrpc'', JStr ''2.0''), (''id'', JInt 23),
               (''result'', JObj [(''content'',
                   JArr [JObj [(''type'', JStr ''text''),
                     (''text'', JStr [CHR ''H'', CHR ''i'', CHR 0x0A, CHR 0x22, CHR 0x27])]])])])
   \<and> handle_jsonrpc sample_runtime (answering (Failed Timeout))
     (echo_request (JObj [(''msg'', JStr [])])) =
    Inr (JObj [(''jsonrpc'', JStr ''2.0''), (''id'', JInt 23),
               (''result'', JObj [(''content'',
                   JArr [JObj [(''type'', JStr ''text''), (''text'', JStr [])]])])])"
  using echo_verbatim [where
      req = "[(''method'', JStr ''tools/call''),
        (''params'', JObj [(''name'', JStr ''echoserver''),
           (''arguments'', JObj [(''msg'', JStr [CHR ''H'', CHR ''i'', CHR 0x0A, CHR 0x22, CHR 0x27])])]),
        (''jsonrpc'', JStr ''2.0''), (''id'', JInt 23)]"
      and ps = "[(''name'', JStr ''echoserver''),
        (''arguments'', JObj [(''msg'', JStr [CHR ''H'', CHR ''i'', CHR 0x0A, CHR 0x22, CHR 0x27])])]"
      and args = "[(''msg'', JStr [CHR ''H'', CHR ''i'', CHR 0x0A, CHR 0x22, CHR 0x27])]"
      and s = "[CHR ''H'', CHR ''i'', CHR 0x0A, CHR 0x22, CHR 0x27]"
      and rt = sample_runtime and http = "answering (Failed Timeout)"]
    echo_verbatim [where
      req = "[(''method'', JStr ''tools/call''),
        (''params'', JObj [(''name'', JStr ''echoserver''),
           (''arguments'', JObj [(''msg'', JStr [])])]),
        (''jsonrpc'', JStr ''2.0''), (''id'', JInt 23)]"
      and ps = "[(''name'', JStr ''echoserver''), (''arguments'', JObj [(''msg'', JStr [])])]"
      and args = "[(''msg'', JStr [])]" and s = "[]"
      and rt = sample_runtime and http = "answering (Failed Timeout)"]
  by (simp add: id_of_def echo_request_def)

text \<open>
  C3. For a \<^verbatim>\<open>tools/call\<close> request that names \<^verbatim>\<open>chesscomProfileFollowers\<close> and
  reaches the outbound request (its arguments are an object), every way the
  collaborator has of reporting no data gives the same answer: a network failure, a
  timeout, a status outside 200 to 299, and a body that does not decode all end in the
  error envelope with code -1 and message \<^verbatim>\<open>Chess.com user profile not found\<close>.
\<close>

theorem lookup_failure_folded:
  assumes "map_of req ''method'' = Some (JStr ''tools/call'')"
    and "map_of req ''params'' = Some (JObj ps)"
    and "map_of ps ''name'' = Some (JStr ''chesscomProfileFollowers'')"
    and "map_of ps ''arguments'' = Some (JObj args)"
    and "url = ''https://api.chess.com/pub/player/'' @
               py_str rt (case map_of args ''username'' of None \<Rightarrow> JNull | Some u \<Rightarrow> u)"
    and "http url request_headers = Failed NetworkFailure \<or>
         http url request_headers = Failed Timeout \<or>
         (\<exists>st body. http url request_headers = Responded st body \<and> \<not> is_success st) \<or>
         (\<exists>st body. http url request_headers = Responded st body \<and> is_success st \<and>
            json_loads rt body = None)"
  shows "handle_jsonrpc rt http (JObj req) =
    Inr (JObj [(''jsonrpc'', JStr ''2.0''), (''id'', id_of req),
               (''error'', JObj [(''code'', JInt (- 1)),
                                 (''message'', JStr ''Chess.com user profile not found'')])])"
proof -
  from assms(6) have "make_chess_request rt http url = JNull"
    by (auto simp: make_chess_request_def)
  then have "call_chesscom rt http (id_of req) (JObj ps) =
      Inr (create_error_response (id_of req) (- 1) ''Chess.com user profile not found'')"
    using call_chesscom_obj [OF assms(4)] assms(5) by simp
  then have "try_block rt http (JObj req) =
      Inr (create_error_response (id_of req) (- 1) ''Chess.com user profile not found'')"
    using try_block_tools_call [OF assms(1,2)] assms(3) by simp
  then have "handle_jsonrpc rt http (JObj req) =
      Inr (create_error_response (id_of req) (- 1) ''Chess.com user profile not found'')"
    by (rule handle_jsonrpc_Inr)
  then show ?thesis by (simp add: create_error_response_def)
qed


theorem lookup_failure_folded_witness:
  "handle_jsonrpc sample_runtime (answering (Failed NetworkFailure)) alice_request =
     Inr (JObj [(''jsonrpc'', JStr ''2.0''), (''id'', JInt 23),
                (''error'', JObj [(''code'', JInt (- 1)),
                                  (''message'', JStr ''Chess.com user profile not found'')])])
   \<and> handle_jsonrpc sample_runtime (answering (Failed Timeout)) alice_request =
     Inr (JObj [(''jsonrpc'', JStr ''2.0''), (''id'', JInt 23),
                (''error'', JObj [(''code'', JInt (- 1)),
                                  (''message'', JStr ''Chess.com user profile not found'')])])
   \<and> handle_jsonrpc sample_runtime (answering (Responded 404 ''Not Found'')) alice_request =
     Inr (JObj [(''jsonrpc'', JStr ''2.0''), (''id'', JInt 23),
                (''error'', JObj [(''code'', JInt (- 1)),
                                  (''message'', JStr ''Chess.com user profile not found'')])])
   \<and> handle_jsonrpc sample_runtime (answering (Responded 200 ''<html>'')) alice_request =
     Inr (JObj [(''jsonrpc'', JStr ''2.0''), (''id'', JInt 23),
                (''error'', JObj [(''code'', JInt (- 1)),
                                  (''message'', JStr ''Chess.com user profile not found'')])])"
proof -
  let ?req = "[(''method'', JStr ''tools/call''),
     (''params'', JObj [(''name'', JStr ''chesscomProfileFollowers''),
                        (''arguments'', JObj [(''username'', JStr ''alice'')])]),
     (''jsonrpc'', JStr ''2.0''), (''id'', JInt 23)]"
  let ?ps = "[(''name'', JStr ''chesscomProfileFollowers''),
              (''arguments'', JObj [(''username'', JStr ''alice'')])]"
  let ?args = "[(''username'', JStr ''alice'')]"
  let ?url = "''https://api.chess.com/pub/player/alice''"
  note inst = lookup_failure_folded [where req = ?req and ps = ?ps and args = ?args
      and url = ?url and rt = sample_runtime]
  have bad: "json_loads sample_runtime ''<html>'' = None"
    by (simp add: sample_runtime_def sample_loads_def)
  have 1: "handle_jsonrpc sample_runtime (answering (Failed NetworkFailure)) (JObj ?req) =
     Inr (JObj [(''jsonrpc'', JStr ''2.0''), (''id'', id_of ?req),
                (''error'', JObj [(''code'', JInt (- 1)),
                                  (''message'', JStr ''Chess.com user profile not found'')])])"
    by (rule inst) (simp_all add: answering_def)
  have 2: "handle_jsonrpc sample_runtime (answering (Failed Timeout)) (JObj ?req) =
     Inr (JObj [(''jsonrpc'', JStr ''2.0''), (''id'', id_of ?req),
                (''error'', JObj [(''code'', JInt (- 1)),
                                  (''message'', JStr ''Chess.com user profile not found'')])])"
    by (rule inst) (simp_all add: answering_def)
  have 3: "handle_jsonrpc sample_runtime (answering (Responded 404 ''Not Found'')) (JObj ?req) =
     Inr (JObj [(''jsonrpc'', JStr ''2.0''), (''id'', id_of ?req),
                (''error'', JObj [(''code'', JInt (- 1)),
                                  (''message'', JStr ''Chess.com user profile not found'')])])"
    by (rule inst) (simp_all add: answering_def is_success_def)
  have 4: "handle_jsonrpc sample_runtime (answering (Responded 200 ''<html>'')) (JObj ?req) =
     Inr (JObj [(''jsonrpc'', JStr ''2.0''), (''id'', id_of ?req),
                (''error'', JObj [(''code'', JInt (- 1)),
                                  (''message'', JStr ''Chess.com user profile not found'')])])"
    by (rule inst) (simp_all add: answering_def is_success_def bad)
  from 1 2 3 4 show ?thesis
    by (simp add: alice_request_def id_of_def)
qed

text \<open>
  C10. For a \<^verbatim>\<open>tools/call\<close> request that names \<^verbatim>\<open>chesscomProfileFollowers\<close> and
  reaches the outbound request, a response with a success status whose body decodes to
  a value that Python counts as false (the empty object, and equally \<^verbatim>\<open>null\<close>,
  \<^verbatim>\<open>false\<close>, zero, the empty string and the empty array) is answered with the same
  -1 \<^verbatim>\<open>Chess.com user profile not found\<close> envelope: the test \<^verbatim>\<open>not data\<close> takes
  every false value, not only a failed request, as absence of data.
\<close>

theorem falsy_body_is_absence:
  assumes "map_of req ''method'' = Some (JStr ''tools/call'')"
    and "map_of req ''params'' = Some (JObj ps)"
    and "map_of ps ''name'' = Some (JStr ''chesscomProfileFollowers'')"
    and "map_of ps ''arguments'' = Some (JObj args)"
    and "url = ''https://api.chess.com/pub/player/'' @
               py_str rt (case map_of args ''username'' of None \<Rightarrow> JNull | Some u \<Rightarrow> u)"
    and "http url request_headers = Responded st body"
    and "is_success st"
    and "json_loads rt body = Some v"
    and "\<not> truthy v"
  shows "handle_jsonrpc rt http (JObj req) =
    Inr (JObj [(''jsonrpc'', JStr ''2.0''), (''id'', id_of req),
               (''error'', JObj [(''code'', JInt (- 1)),
                                 (''message'', JStr ''Chess.com user profile not found'')])])"
proof -
  have "make_chess_request rt http url = v"
    using assms(6-8) by (rule make_chess_request_decoded)
  with assms(9) have "call_chesscom rt http (id_of req) (JObj ps) =
      Inr (create_error_response (id_of req) (- 1) ''Chess.com user profile not found'')"
    using call_chesscom_obj [OF assms(4)] assms(5) by simp
  then have "try_block rt http (JObj req) =
      Inr (create_error_response (id_of req) (- 1) ''Chess.com user profile not found'')"
    using try_block_tools_call [OF assms(1,2)] assms(3) by simp
  then have "handle_jsonrpc rt http (JObj req) =
      Inr (create_error_response (id_of req) (- 1) ''Chess.com user profile not found'')"
    by (rule handle_jsonrpc_Inr)
  then show ?thesis by (simp add: create_error_response_def)
qed

theorem falsy_body_is_absence_witness:
  "handle_jsonrpc sample_runtime (answering (Responded 200 ''{}'')) alice_request =
     Inr (JObj [(''jsonrpc'', JStr ''2.0''), (''id'', JInt 23),
                (''error'', JObj [(''code'', JInt (- 1)),
                                  (''message'', JStr ''Chess.com user profile not found'')])])"
proof -
  let ?req = "[(''method'', JStr ''tools/call''),
     (''params'', JObj [(''name'', JStr ''chesscomProfileFollowers''),
                        (''arguments'', JObj [(''username'', JStr ''alice'')])]),
     (''jsonrpc'', JStr ''2.0''), (''id'', JInt 23)]"
  have "handle_jsonrpc sample_runtime (answering (Responded 200 ''{}'')) (JObj ?req) =
     Inr (JObj [(''jsonrpc'', JStr ''2.0''), (''id'', id_of ?req),
                (''error'', JObj [(''code'', JInt (- 1)),
                                  (''message'', JStr ''Chess.com user profile not found'')])])"
    by (rule falsy_body_is_absence [where
          ps = "[(''name'', JStr ''chesscomProfileFollowers''),
                 (''arguments'', JObj [(''username'', JStr ''alice'')])]"
          and args = "[(''username'', JStr ''alice'')]"
          and url = "''https://api.chess.com/pub/player/alice''"
          and st = 200 and body = "''{}''" and v = "JObj []"])
       (simp_all add: answering_def is_success_def sample_runtime_def sample_loads_def)
  then show ?thesis
    by (simp add: alice_request_def id_of_def)
qed

text \<open>
  C6, as the claim states it, fails: the claim promises the -32603 envelope whenever
  the returned object has no \<^verbatim>\<open>followers\<close> member. The empty object has none, yet it
  is false for \<^verbatim>\<open>not data\<close>, and the answer is the -1 envelope.
\<close>

theorem lookup_followers_absent_counterexample:
  "map_of ([] :: (string \<times> json) list) ''followers'' = None
   \<and> json_loads sample_runtime ''{}'' = Some (JObj [])
   \<and> handle_jsonrpc sample_runtime (answering (Responded 200 ''{}'')) alice_request =
     Inr (JObj [(''jsonrpc'', JStr ''2.0''), (''id'', JInt 23),
                (''error'', JObj [(''code'', JInt (- 1)),
                                  (''message'', JStr ''Chess.com user profile not found'')])])"
  by (simp add: handle_jsonrpc_def try_block_def call_chesscom_def make_chess_request_def
      alice_request_def answering_def CHESSCOM_API_BASE_def is_success_def
      sample_runtime_def sample_loads_def create_error_response_def)

text \<open>
  C6, amended. For every \<^verbatim>\<open>tools/call\<close> request that names
  \<^verbatim>\<open>chesscomProfileFollowers\<close>, whatever its username, when the collaborator answers
  the request for that username with a success status and a body that decodes to an
  object: if the object holds a \<^verbatim>\<open>followers\<close> member (among any other members), the
  answer is a success envelope whose only content item is a text item holding
  \<^verbatim>\<open>str\<close> of that member, so that \<^verbatim>\<open>followers\<close> = 42 gives the text \<^verbatim>\<open>42\<close>, and
  for username \<^verbatim>\<open>alice\<close> the collaborator is asked for
  \<^verbatim>\<open>https://api.chess.com/pub/player/alice\<close>; if the object is not empty and holds no
  \<^verbatim>\<open>followers\<close> member, the answer is the -32603 envelope of the fallback, with the
  text of the \<^verbatim>\<open>KeyError\<close> as message.
\<close>

theorem lookup_followers:
  assumes "map_of req ''method'' = Some (JStr ''tools/call'')"
    and "map_of req ''params'' = Some (JObj ps)"
    and "map_of ps ''name'' = Some (JStr ''chesscomProfileFollowers'')"
    and "map_of ps ''arguments'' = Some (JObj args)"
    and "url = ''https://api.chess.com/pub/player/'' @
               py_str rt (case map_of args ''username'' of None \<Rightarrow> JNull | Some u \<Rightarrow> u)"
    and "http url request_headers = Responded st body"
    and "is_success st"
    and "json_loads rt body = Some (JObj data)"
  shows "(\<forall>f. map_of data ''followers'' = Some f \<longrightarrow>
      handle_jsonrpc rt http (JObj req) =
        Inr (JObj [(''jsonrpc'', JStr ''2.0''), (''id'', id_of req),
                   (''result'', JObj [(''content'',
                       JArr [JObj [(''type'', JStr ''text''),
                                   (''text'', JStr (py_str rt f))]])])]))
    \<and> (map_of data ''followers'' = Some (JInt 42) \<longrightarrow>
      handle_jsonrpc rt http (JObj req) =
        Inr (JObj [(''jsonrpc'', JStr ''2.0''), (''id'', id_of req),
                   (''result'', JObj [(''content'',
                       JArr [JObj [(''type'', JStr ''text''), (''text'', JStr ''42'')]])])]))
    \<and> (map_of args ''username'' = Some (JStr ''alice'') \<longrightarrow>
      url = ''https://api.chess.com/pub/player/alice'')
    \<and> (data \<noteq> [] \<and> map_of data ''followers'' = None \<longrightarrow>
      handle_jsonrpc rt http (JObj req) =
        Inr (JObj [(''jsonrpc'', JStr ''2.0''), (''id'', id_of req),
                   (''error'', JObj [(''code'', JInt (- 32603)),
                                     (''message'', JStr (exc_str rt (KeyError ''followers'')))])]))"
proof -
  let ?i = "id_of req"
  have data: "make_chess_request rt http url = JObj data"
    using assms(6-8) by (rule make_chess_request_decoded)
  have route: "try_block rt http (JObj req) = call_chesscom rt http ?i (JObj ps)"
    using try_block_tools_call [OF assms(1,2)] assms(3) by simp
  have call: "call_chesscom rt http ?i (JObj ps) =
      (if data = [] then
         Inr (create_error_response ?i (- 1) ''Chess.com user profile not found'')
       else (case map_of data ''followers'' of
               None \<Rightarrow> Inl (KeyError ''followers'')
             | Some f \<Rightarrow> Inr (create_response ?i (text_content (JStr (py_str rt f))))))"
    using call_chesscom_obj [OF assms(4)] assms(5) data
    by (simp split: option.splits)
  have found: "handle_jsonrpc rt http (JObj req) =
      Inr (create_response ?i (text_content (JStr (py_str rt f))))"
    if "map_of data ''followers'' = Some f" for f
  proof -
    from that have "data \<noteq> []" by auto
    with that call route have "try_block rt http (JObj req) =
        Inr (create_response ?i (text_content (JStr (py_str rt f))))"
      by simp
    then show ?thesis by (rule handle_jsonrpc_Inr)
  qed
  have forty_two: "py_str rt (JInt 42) = ''42''"
    by (simp add: str_int_42)
  have alice: "url = ''https://api.chess.com/pub/player/alice''"
    if "map_of args ''username'' = Some (JStr ''alice'')"
    using assms(5) that by simp
  have missing: "handle_jsonrpc rt http (JObj req) =
      Inr (create_error_response ?i (- 32603) (exc_str rt (KeyError ''followers'')))"
    if "data \<noteq> []" "map_of data ''followers'' = None"
  proof -
    from that call route have "try_block rt http (JObj req) = Inl (KeyError ''followers'')"
      by simp
    then show ?thesis by (rule handle_jsonrpc_Inl)
  qed
  have a: "\<forall>f. map_of data ''followers'' = Some f \<longrightarrow>
      handle_jsonrpc rt http (JObj req) =
        Inr (JObj [(''jsonrpc'', JStr ''2.0''), (''id'', id_of req),
                   (''result'', JObj [(''content'',
                       JArr [JObj [(''type'', JStr ''text''),
                                   (''text'', JStr (py_str rt f))]])])])"
    using found by (simp add: create_response_def text_content_def)
  have b: "map_of data ''followers'' = Some (JInt 42) \<longrightarrow>
      handle_jsonrpc rt http (JObj req) =
        Inr (JObj [(''jsonrpc'', JStr ''2.0''), (''id'', id_of req),
                   (''result'', JObj [(''content'',
                       JArr [JObj [(''type'', JStr ''text''), (''text'', JStr ''42'')]])])])"
    using found [of "JInt 42"] forty_two by (simp add: create_response_def text_content_def)
  have d: "data \<noteq> [] \<and> map_of data ''followers'' = None \<longrightarrow>
      handle_jsonrpc rt http (JObj req) =
        Inr (JObj [(''jsonrpc'', JStr ''2.0''), (''id'', id_of req),
                   (''error'', JObj [(''code'', JInt (- 32603)),
                                     (''message'', JStr (exc_str rt (KeyError ''followers'')))])])"
    using missing by (simp add: create_error_response_def)
  from a b alice d show ?thesis by blast
qed

theorem lookup_followers_witness:
  \<open>handle_jsonrpc sample_runtime
      (answering (Responded 200 ''{"followers": 42, "name": "Alice"}'')) alice_request =
     Inr (JObj [(''jsonrpc'', JStr ''2.0''), (''id'', JInt 23),
                (''result'', JObj [(''content'',
                    JArr [JObj [(''type'', JStr ''text''), (''text'', JStr ''42'')]])])])
   \<and> handle_jsonrpc sample_runtime
      (answering (Responded 200 ''{"name": "Alice"}'')) alice_request =
     Inr (JObj [(''jsonrpc'', JStr ''2.0''), (''id'', JInt 23),
                (''error'', JObj [(''code'', JInt (- 32603)),
                   (''message'', JStr (exc_str sample_runtime (KeyError ''followers'')))])])
   \<and> handle_jsonrpc sample_runtime (\<lambda>url hs. Responded 200 ''{"name": "Alice"}'')
      (JObj [(''id'', JStr ''q7''), (''method'', JStr ''tools/call''),
             (''params'', JObj [(''name'', JStr ''chesscomProfileFollowers''),
                                (''arguments'', JObj [(''username'', JInt 7)])])]) =
     Inr (JObj [(''jsonrpc'', JStr ''2.0''), (''id'', JStr ''q7''),
                (''error'', JObj [(''code'', JInt (- 32603)),
                   (''message'', JStr (exc_str sample_runtime (KeyError ''followers'')))])])\<close>
proof -
  let ?req = "[(''method'', JStr ''tools/call''),
     (''params'', JObj [(''name'', JStr ''chesscomProfileFollowers''),
                        (''arguments'', JObj [(''username'', JStr ''alice'')])]),
     (''jsonrpc'', JStr ''2.0''), (''id'', JInt 23)]"
  let ?ps = "[(''name'', JStr ''chesscomProfileFollowers''),
              (''arguments'', JObj [(''username'', JStr ''alice'')])]"
  let ?req7 = "[(''id'', JStr ''q7''), (''method'', JStr ''tools/call''),
     (''params'', JObj [(''name'', JStr ''chesscomProfileFollowers''),
                        (''arguments'', JObj [(''username'', JInt 7)])])]"
  let ?ps7 = "[(''name'', JStr ''chesscomProfileFollowers''),
               (''arguments'', JObj [(''username'', JInt 7)])]"
  have a: \<open>json_loads sample_runtime ''{"followers": 42, "name": "Alice"}'' =
      Some (JObj [(''followers'', JInt 42), (''name'', JStr ''Alice'')])\<close>
    by (simp add: sample_runtime_def sample_loads_def)
  have b: \<open>json_loads sample_runtime ''{"name": "Alice"}'' =
      Some (JObj [(''name'', JStr ''Alice'')])\<close>
    by (simp add: sample_runtime_def sample_loads_def)
  have ok: "is_success 200" by (simp add: is_success_def)
  from lookup_followers [where req = ?req and ps = ?ps
      and args = "[(''username'', JStr ''alice'')]" and rt = sample_runtime
      and url = "''https://api.chess.com/pub/player/alice''"
      and http = \<open>answering (Responded 200 ''{"followers": 42, "name": "Alice"}'')\<close>
      and st = 200
      and data = "[(''followers'', JInt 42), (''name'', JStr ''Alice'')]",
      OF _ _ _ _ _ _ ok a]
  have 1: \<open>handle_jsonrpc sample_runtime
      (answering (Responded 200 ''{"followers": 42, "name": "Alice"}'')) (JObj ?req) =
     Inr (JObj [(''jsonrpc'', JStr ''2.0''), (''id'', id_of ?req),
                (''result'', JObj [(''content'',
                    JArr [JObj [(''type'', JStr ''text''), (''text'', JStr ''42'')]])])])\<close>
    by (simp add: answering_def str_int_42)
  from lookup_followers [where req = ?req and ps = ?ps
      and args = "[(''username'', JStr ''alice'')]" and rt = sample_runtime
      and url = "''https://api.chess.com/pub/player/alice''"
      and http = \<open>answering (Responded 200 ''{"name": "Alice"}'')\<close>
      and st = 200
      and data = "[(''name'', JStr ''Alice'')]",
      OF _ _ _ _ _ _ ok b]
  have 2: \<open>handle_jsonrpc sample_runtime
      (answering (Responded 200 ''{"name": "Alice"}'')) (JObj ?req) =
     Inr (JObj [(''jsonrpc'', JStr ''2.0''), (''id'', id_of ?req),
                (''error'', JObj [(''code'', JInt (- 32603)),
                   (''message'', JStr (exc_str sample_runtime (KeyError ''followers'')))])])\<close>
    by (simp add: answering_def)
  from lookup_followers [where req = ?req7 and ps = ?ps7
      and args = "[(''username'', JInt 7)]" and rt = sample_runtime
      and url = "''https://api.chess.com/pub/player/7''"
      and http = \<open>\<lambda>url hs. Responded 200 ''{"name": "Alice"}''\<close>
      and st = 200
      and data = "[(''name'', JStr ''Alice'')]",
      OF _ _ _ _ _ _ ok b]
  have 3: \<open>handle_jsonrpc sample_runtime (\<lambda>url hs. Responded 200 ''{"name": "Alice"}'')
      (JObj ?req7) =
     Inr (JObj [(''jsonrpc'', JStr ''2.0''), (''id'', id_of ?req7),
                (''error'', JObj [(''code'', JInt (- 32603)),
                   (''message'', JStr (exc_str sample_runtime (KeyError ''followers'')))])])\<close>
    by (simp add: str_int_def str_nat.simps digit_char_def)
  from 1 2 3 show ?thesis
    by (simp add: alice_request_def id_of_def)
qed

text \<open>
  C5, as the claim states it, fails: with arguments that are an object without
  \<^verbatim>\<open>msg\<close>, \<^verbatim>\<open>arguments.get("msg")\<close> is \<^verbatim>\<open>None\<close> and raises nothing; the answer is a
  success envelope whose text is \<^verbatim>\<open>null\<close>, not the -32603 envelope.
\<close>

theorem echo_missing_msg_counterexample:
  "handle_jsonrpc sample_runtime (answering (Failed Timeout)) (echo_request (JObj [])) =
     Inr (JObj [(''jsonrpc'', JStr ''2.0''), (''id'', JInt 23),
                (''result'', JObj [(''content'',
                    JArr [JObj [(''type'', JStr ''text''), (''text'', JNull)]])])])"
  by (simp add: handle_jsonrpc_def try_block_def call_echoserver_def echo_request_def
      create_response_def text_content_def)

text \<open>
  C5, amended. A \<^verbatim>\<open>tools/call\<close> request that names \<^verbatim>\<open>echoserver\<close> ends in the -32603
  envelope of the fallback exactly when its \<^verbatim>\<open>arguments\<close> are not an object (left out,
  \<^verbatim>\<open>null\<close>, or any other value without a \<^verbatim>\<open>get\<close> method). When the arguments are
  an object the call always succeeds, and the text of the one content item is
  \<^verbatim>\<open>arguments.get("msg")\<close>: \<^verbatim>\<open>null\<close> when \<^verbatim>\<open>msg\<close> is missing.
\<close>

theorem echo_failure_modes:
  assumes "map_of req ''method'' = Some (JStr ''tools/call'')"
    and "map_of req ''params'' = Some (JObj ps)"
    and "map_of ps ''name'' = Some (JStr ''echoserver'')"
  shows "(\<forall>args. map_of ps ''arguments'' = Some (JObj args) \<longrightarrow>
      handle_jsonrpc rt http (JObj req) =
        Inr (JObj [(''jsonrpc'', JStr ''2.0''), (''id'', id_of req),
                   (''result'', JObj [(''content'',
                       JArr [JObj [(''type'', JStr ''text''),
                         (''text'', case map_of args ''msg'' of None \<Rightarrow> JNull | Some m \<Rightarrow> m)]])])]))
    \<and> ((\<forall>args. map_of ps ''arguments'' \<noteq> Some (JObj args)) \<longrightarrow>
      handle_jsonrpc rt http (JObj req) =
        Inr (JObj [(''jsonrpc'', JStr ''2.0''), (''id'', id_of req),
                   (''error'', JObj [(''code'', JInt (- 32603)),
                      (''message'', JStr (exc_str rt (AttributeError
                          (case map_of ps ''arguments'' of None \<Rightarrow> JNull | Some a \<Rightarrow> a)
                          ''get'')))])]))"
proof -
  let ?i = "id_of req"
  have route: "try_block rt http (JObj req) = call_echoserver ?i (JObj ps)"
    using try_block_tools_call [OF assms(1,2)] assms(3) by simp
  have obj: "handle_jsonrpc rt http (JObj req) =
      Inr (create_response ?i
            (text_content (case map_of args ''msg'' of None \<Rightarrow> JNull | Some m \<Rightarrow> m)))"
    if "map_of ps ''arguments'' = Some (JObj args)" for args
    using route call_echoserver_obj [OF that] by (intro handle_jsonrpc_Inr) simp
  have not_obj: "handle_jsonrpc rt http (JObj req) =
      Inr (create_error_response ?i (- 32603) (exc_str rt (AttributeError
            (case map_of ps ''arguments'' of None \<Rightarrow> JNull | Some a \<Rightarrow> a) ''get'')))"
    if "\<forall>args. map_of ps ''arguments'' \<noteq> Some (JObj args)"
    using route call_echoserver_not_obj [OF that] by (intro handle_jsonrpc_Inl) simp
  from obj not_obj show ?thesis
    by (simp add: create_response_def create_error_response_def text_content_def)
qed

theorem echo_failure_modes_witness:
  "handle_jsonrpc sample_runtime (answering (Failed Timeout))
      (echo_request (JObj [(''text'', JStr ''Hi'')])) =
     Inr (JObj [(''jsonrpc'', JStr ''2.0''), (''id'', JInt 23),
                (''result'', JObj [(''content'',
                    JArr [JObj [(''type'', JStr ''text''), (''text'', JNull)]])])])
   \<and> handle_jsonrpc sample_runtime (answering (Failed Timeout)) (echo_request JNull) =
     Inr (JObj [(''jsonrpc'', JStr ''2.0''), (''id'', JInt 23),
                (''error'', JObj [(''code'', JInt (- 32603)),
                   (''message'', JStr (exc_str sample_runtime (AttributeError JNull ''get'')))])])"
  using
    echo_failure_modes [where rt = sample_runtime and http = "answering (Failed Timeout)"
      and req = "[(''method'', JStr ''tools/call''),
         (''params'', JObj [(''name'', JStr ''echoserver''),
                            (''arguments'', JObj [(''text'', JStr ''Hi'')])]),
         (''jsonrpc'', JStr ''2.0''), (''id'', JInt 23)]"
      and ps = "[(''name'', JStr ''echoserver''), (''arguments'', JObj [(''text'', JStr ''Hi'')])]"]
    echo_failure_modes [where rt = sample_runtime and http = "answering (Failed Timeout)"
      and req = "[(''method'', JStr ''tools/call''),
         (''params'', JObj [(''name'', JStr ''echoserver''), (''arguments'', JNull)]),
         (''jsonrpc'', JStr ''2.0''), (''id'', JInt 23)]"
      and ps = "[(''name'', JStr ''echoserver''), (''arguments'', JNull)]"]
  by (simp add: echo_request_def id_of_def)

text \<open>
  C1, as the claim states it, fails: \<^verbatim>\<open>json.loads\<close> also returns values that are not
  objects. For the decoded array \<^verbatim>\<open>[]\<close> the first \<^verbatim>\<open>request.get\<close> raises inside
  the \<^verbatim>\<open>try\<close> block, and the \<^verbatim>\<open>except\<close> clause calls \<^verbatim>\<open>request.get("id")\<close>
  again, which raises out of \<^verbatim>\<open>handle_jsonrpc\<close>.
\<close>

theorem handle_non_object_counterexample:
  "handle_jsonrpc sample_runtime (answering (Failed Timeout)) (JArr []) =
     Inl (AttributeError (JArr []) ''get'')"
  by (simp add: handle_jsonrpc_def try_block_def)

text \<open>
  C1, amended. For every decoded JSON object passed to \<^verbatim>\<open>handle_jsonrpc\<close> (the type
  its signature declares), the call returns normally, and what it returns is a
  well-formed envelope that carries the id of the request, \<^verbatim>\<open>null\<close> when the request
  has no \<^verbatim>\<open>id\<close> member.
\<close>

theorem handle_object_envelope:
  "\<exists>env. handle_jsonrpc rt http (JObj req) = Inr env \<and>
         well_formed_envelope env \<and> envelope_id env = Some (id_of req)"
proof (cases "try_block rt http (JObj req)")
  case (Inl e)
  then have "handle_jsonrpc rt http (JObj req) =
      Inr (create_error_response (id_of req) (- 32603) (exc_str rt e))"
    by (rule handle_jsonrpc_Inl)
  then show ?thesis
    using well_formed_create_error_response by simp
next
  case (Inr r)
  then have "handle_jsonrpc rt http (JObj req) = Inr r"
    by (rule handle_jsonrpc_Inr)
  then show ?thesis
    using try_block_envelope [OF Inr] by simp
qed

theorem handle_object_envelope_witness:
  "\<exists>env. handle_jsonrpc sample_runtime (answering (Failed Timeout))
            (JObj [(''id'', JStr ''a1''), (''method'', JStr ''tools/call''),
                   (''params'', JInt 3)]) = Inr env \<and>
         well_formed_envelope env \<and> envelope_id env = Some (JStr ''a1'')"
  using handle_object_envelope [where rt = sample_runtime
      and http = "answering (Failed Timeout)"
      and req = "[(''id'', JStr ''a1''), (''method'', JStr ''tools/call''), (''params'', JInt 3)]"]
  by (simp add: id_of_def)

text \<open>
  C4. When the input is one line that does not decode followed by one line that
  decodes to a \<^verbatim>\<open>tools/list\<close> request, the session loop prints exactly two lines:
  the -32700 parse error envelope with id \<^verbatim>\<open>null\<close>, then the \<^verbatim>\<open>tools/list\<close>
  success envelope, which is what it prints for the second line alone. In general a
  line that does not decode costs one error line and the loop goes on with the rest of
  the input.
\<close>

theorem malformed_line_resilience:
  assumes "l1 \<noteq> []" and "l2 \<noteq> []"
    and "json_loads rt (str_strip rt l1) = None"
    and "json_loads rt (str_strip rt l2) = Some (JObj req)"
    and "map_of req ''method'' = Some (JStr ''tools/list'')"
  shows "main rt net [l1, l2] =
      [json_dumps rt (JObj [(''jsonrpc'', JStr ''2.0''), (''id'', JNull),
          (''error'', JObj [(''code'', JInt (- 32700)), (''message'', JStr ''Parse error'')])]),
       json_dumps rt (JObj [(''jsonrpc'', JStr ''2.0''), (''id'', id_of req),
          (''result'', JObj [(''tools'', JArr [echoserver_tool, chesscom_tool])])])]
    \<and> main rt net' [l2] =
      [json_dumps rt (JObj [(''jsonrpc'', JStr ''2.0''), (''id'', id_of req),
          (''result'', JObj [(''tools'', JArr [echoserver_tool, chesscom_tool])])])]
    \<and> main_loop rt net n (l1 # rest) =
      json_dumps rt parse_error_response # main_loop rt net (Suc n) rest"
proof -
  have list: "handle_jsonrpc rt http (JObj req) =
      Inr (JObj [(''jsonrpc'', JStr ''2.0''), (''id'', id_of req),
          (''result'', JObj [(''tools'', JArr [echoserver_tool, chesscom_tool])])])" for http
    using handle_jsonrpc_Inr [OF try_block_tools_list [OF assms(5)]]
    by (simp add: create_response_def tools_def)
  have step: "main_loop rt net n (l1 # rest) =
      json_dumps rt parse_error_response # main_loop rt net (Suc n) rest" for n rest
    using assms(1,3) by simp
  have second: "main_loop rt net'' k [l2] =
      [json_dumps rt (JObj [(''jsonrpc'', JStr ''2.0''), (''id'', id_of req),
          (''result'', JObj [(''tools'', JArr [echoserver_tool, chesscom_tool])])])]" for net'' k
    using assms(2,4) list by simp
  show ?thesis
    using step second by (simp add: main_def parse_error_response_def)
qed

theorem malformed_line_resilience_witness:
  "main sample_runtime (\<lambda>n. answering (Failed Timeout)) [garbage_line, tools_list_line] =
      [json_dumps sample_runtime (JObj [(''jsonrpc'', JStr ''2.0''), (''id'', JNull),
          (''error'', JObj [(''code'', JInt (- 32700)), (''message'', JStr ''Parse error'')])]),
       json_dumps sample_runtime (JObj [(''jsonrpc'', JStr ''2.0''), (''id'', JInt 2),
          (''result'', JObj [(''tools'', JArr [echoserver_tool, chesscom_tool])])])]"
proof -
  have 1: "json_loads sample_runtime (str_strip sample_runtime garbage_line) = None"
    by (simp add: sample_runtime_def sample_strip_def garbage_line_def sample_loads_def)
  have 2: "json_loads sample_runtime (str_strip sample_runtime tools_list_line) =
      Some (JObj [(''jsonrpc'', JStr ''2.0''), (''id'', JInt 2), (''method'', JStr ''tools/list'')])"
    by (simp add: sample_runtime_def sample_strip_def tools_list_line_def sample_loads_def)
  have 3: "garbage_line \<noteq> []" "tools_list_line \<noteq> []"
    by (simp_all add: garbage_line_def tools_list_line_def)
  from malformed_line_resilience [OF 3 1 2, where net = "\<lambda>n. answering (Failed Timeout)"]
  show ?thesis by (simp add: id_of_def)
qed

end
